theory Spec2Isabelle
  imports Complex_Main "HOL-Library.AList"
begin

section \<open>Tables as the dashboard sees them\<close>

text \<open>
  \<^verbatim>\<open>app.py\<close> is a Streamlit script: it fetches four warehouse views through
  \<^verbatim>\<open>run_query\<close>, adds \<^verbatim>\<open>YEAR\<close> and \<^verbatim>\<open>MONTH\<close> columns to two of them, and feeds
  selectors, group-sums and boolean-mask filters from the result.

  A pandas DataFrame is modelled by its column labels and its rows; a row is an
  association list from label to cell. A cell is missing (\<open>Null\<close>: Python's \<^verbatim>\<open>None\<close>,
  \<^verbatim>\<open>NaN\<close>, \<^verbatim>\<open>NaT\<close>), a number, a string or a parsed timestamp. Of a timestamp only the
  calendar year and month are read by the script; the remainder (day and time of day)
  is kept as one number.
\<close>

datatype timestamp = Timestamp (ts_year: int) (ts_month: int) (ts_rest: int)

datatype cell = Null | Num int | Str string | Ts timestamp

type_synonym row = "(string \<times> cell) list"

record dataframe =
  columns :: "string list"
  rows :: "row list"

text \<open>Exceptions that leave a pandas call, as values.\<close>

datatype error =
    KeyError string
  | ParseError cell
  | AttributeError string
  | ValueError string
  | Unmodelled string

text \<open>Sequencing: the first exception ends the computation.\<close>

definition and_then :: "error + 'a \<Rightarrow> ('a \<Rightarrow> error + 'b) \<Rightarrow> error + 'b" where
  "and_then m f = (case m of Inl e \<Rightarrow> Inl e | Inr x \<Rightarrow> f x)"

text \<open>\<^verbatim>\<open>pd.DataFrame()\<close>: no columns, no rows.\<close>

definition empty_frame :: dataframe where
  "empty_frame = \<lparr>columns = [], rows = []\<rparr>"


definition cell_at :: "string \<Rightarrow> row \<Rightarrow> cell" where
  "cell_at c r = (case map_of r c of Some v \<Rightarrow> v | None \<Rightarrow> Null)"

text \<open>\<^verbatim>\<open>df[c]\<close>: the cells of column \<open>c\<close>, or \<^verbatim>\<open>KeyError\<close> when there is no such label.\<close>

definition get_column :: "string \<Rightarrow> dataframe \<Rightarrow> error + cell list" where
  "get_column c df =
     (if c \<in> set (columns df) then Inr (map (cell_at c) (rows df)) else Inl (KeyError c))"

text \<open>
  \<^verbatim>\<open>df[c] = values\<close>: an existing column is overwritten where it stands, a new one is
  appended. The values come from a column of the same frame, so there is one per row.
\<close>

definition set_column :: "string \<Rightarrow> cell list \<Rightarrow> dataframe \<Rightarrow> dataframe" where
  "set_column c vs df =
     \<lparr>columns = (if c \<in> set (columns df) then columns df else columns df @ [c]),
      rows = map (\<lambda>(r, v). AList.update c v r) (zip (rows df) vs)\<rparr>"

section \<open>Date decomposition (lines 55-57 and 163-165)\<close>

text \<open>
  \<^verbatim>\<open>pd.to_datetime(series)\<close> is called with its default \<^verbatim>\<open>errors='raise'\<close>: a missing cell
  becomes \<^verbatim>\<open>NaT\<close>, a timestamp stays, any other cell goes through pandas' parser, and
  the first cell the parser rejects raises. The parser itself is a parameter
  \<open>parse\<close>; \<open>None\<close> is its rejection.
\<close>

fun to_datetime_cell :: "(cell \<Rightarrow> timestamp option) \<Rightarrow> cell \<Rightarrow> error + cell" where
  "to_datetime_cell parse Null = Inr Null"
| "to_datetime_cell parse (Ts t) = Inr (Ts t)"
| "to_datetime_cell parse c =
     (case parse c of Some t \<Rightarrow> Inr (Ts t) | None \<Rightarrow> Inl (ParseError c))"

fun to_datetime :: "(cell \<Rightarrow> timestamp option) \<Rightarrow> cell list \<Rightarrow> error + cell list" where
  "to_datetime parse [] = Inr []"
| "to_datetime parse (c # cs) =
     (case to_datetime_cell parse c of
        Inl e \<Rightarrow> Inl e
      | Inr t \<Rightarrow> (case to_datetime parse cs of Inl e \<Rightarrow> Inl e | Inr ts \<Rightarrow> Inr (t # ts)))"

text \<open>
  \<^verbatim>\<open>series.dt.year\<close> and \<^verbatim>\<open>series.dt.month\<close>: the accessor exists on a datetime column
  only (\<^verbatim>\<open>AttributeError\<close> otherwise); \<^verbatim>\<open>NaT\<close> gives \<^verbatim>\<open>NaN\<close>.
\<close>

fun is_datetime :: "cell \<Rightarrow> bool" where
  "is_datetime Null = True"
| "is_datetime (Ts t) = True"
| "is_datetime c = False"

fun dt_cell :: "(timestamp \<Rightarrow> int) \<Rightarrow> cell \<Rightarrow> cell" where
  "dt_cell f (Ts t) = Num (f t)"
| "dt_cell f c = Null"

definition dt_field :: "(timestamp \<Rightarrow> int) \<Rightarrow> cell list \<Rightarrow> error + cell list" where
  "dt_field f cs =
     (if list_all is_datetime cs then Inr (map (dt_cell f) cs)
      else Inl (AttributeError ''Can only use .dt accessor with datetimelike values''))"

text \<open>
  The three assignments of the script, in order, each reading the timestamp column
  back from the frame it has just changed:
  \<^verbatim>\<open>
  df[col] = pd.to_datetime(df[col])
  df["YEAR"] = df[col].dt.year
  df["MONTH"] = df[col].dt.month
  \<close>
  An exception leaves before the assignment of its line.
\<close>

definition decompose ::
  "(cell \<Rightarrow> timestamp option) \<Rightarrow> string \<Rightarrow> dataframe \<Rightarrow> error + dataframe" where
  "decompose parse col df =
     and_then (get_column col df) (\<lambda>raw.
     and_then (to_datetime parse raw) (\<lambda>ts.
       let df1 = set_column col ts df in
     and_then (get_column col df1) (\<lambda>c1.
     and_then (dt_field ts_year c1) (\<lambda>ys.
       let df2 = set_column ''YEAR'' ys df1 in
     and_then (get_column col df2) (\<lambda>c2.
     and_then (dt_field ts_month c2) (\<lambda>ms.
       Inr (set_column ''MONTH'' ms df2)))))))"

section \<open>Comparisons, masks, selectors\<close>

text \<open>
  \<^verbatim>\<open>series == value\<close>, cell by cell: a missing cell equals nothing, not even a missing
  value; otherwise cells are equal when kind and content are (strings case-sensitively).
\<close>

fun cell_eq :: "cell \<Rightarrow> cell \<Rightarrow> bool" where
  "cell_eq Null b = False"
| "cell_eq a Null = False"
| "cell_eq a b = (a = b)"

text \<open>\<^verbatim>\<open>df[mask]\<close> for a mask computed row by row: the rows where it is true, in order.\<close>

definition select_rows :: "(row \<Rightarrow> bool) \<Rightarrow> dataframe \<Rightarrow> dataframe" where
  "select_rows p df = df\<lparr>rows := filter p (rows df)\<rparr>"

text \<open>\<^verbatim>\<open>df[df[c] == v]\<close>.\<close>

definition where_eq :: "string \<Rightarrow> cell \<Rightarrow> dataframe \<Rightarrow> error + dataframe" where
  "where_eq c v df =
     (if c \<in> set (columns df) then Inr (select_rows (\<lambda>r. cell_eq (cell_at c r) v) df)
      else Inl (KeyError c))"

text \<open>\<^verbatim>\<open>series.unique()\<close>: the distinct values in order of first appearance.\<close>

fun unique :: "'a list \<Rightarrow> 'a list" where
  "unique [] = []"
| "unique (x # xs) = x # filter (\<lambda>y. y \<noteq> x) (unique xs)"

text \<open>
  \<^verbatim>\<open>sorted(values)\<close> on the values of a \<^verbatim>\<open>YEAR\<close> or \<^verbatim>\<open>MONTH\<close> column, which are numbers
  or \<^verbatim>\<open>NaN\<close>. Python's sort asks only \<^verbatim>\<open>x < y\<close>, and every comparison with \<^verbatim>\<open>NaN\<close> is
  false. On numbers alone the result is the ascending list. With a \<^verbatim>\<open>NaN\<close> among them
  Python still returns a rearrangement of its input, but where the \<^verbatim>\<open>NaN\<close> lands
  depends on the sort's run detection; the model inserts one value after the other,
  and for such input only the set of values is meaningful.
\<close>

fun py_lt :: "cell \<Rightarrow> cell \<Rightarrow> bool" where
  "py_lt (Num a) (Num b) = (a < b)"
| "py_lt a b = False"

fun py_insert :: "cell \<Rightarrow> cell list \<Rightarrow> cell list" where
  "py_insert x [] = [x]"
| "py_insert x (y # ys) = (if py_lt x y then x # y # ys else y # py_insert x ys)"

definition py_sorted :: "cell list \<Rightarrow> cell list" where
  "py_sorted xs = foldl (\<lambda>acc x. py_insert x acc) [] xs"


text \<open>
  The month box of the daily trend (line 111):
  \<^verbatim>\<open>sorted(trend_df[trend_df["YEAR"] == year_d]["MONTH"].unique())\<close>.
\<close>

definition daily_month_options :: "cell \<Rightarrow> dataframe \<Rightarrow> error + cell list" where
  "daily_month_options year_d df =
     and_then (where_eq ''YEAR'' year_d df) (\<lambda>sub.
     and_then (get_column ''MONTH'' sub) (\<lambda>ms. Inr (py_sorted (unique ms))))"

text \<open>
  The month box of the drill-down (line 173): \<^verbatim>\<open>sorted(dash_df["MONTH"].unique())\<close>.
\<close>

definition drill_month_options :: "dataframe \<Rightarrow> error + cell list" where
  "drill_month_options df =
     and_then (get_column ''MONTH'' df) (\<lambda>ms. Inr (py_sorted (unique ms)))"


section \<open>Group-sum (lines 64 and 84-85)\<close>

text \<open>
  \<^verbatim>\<open>df.groupby(key)[metric].sum().reset_index()\<close>. pandas drops rows whose key is
  missing, sorts the group keys ascending, skips missing values inside a sum, and
  \<^verbatim>\<open>reset_index\<close> refuses to insert a label the result already has. The keys of the
  script are \<^verbatim>\<open>YEAR\<close> and \<^verbatim>\<open>MONTH\<close> and the metric is a count, so keys and metric are
  numbers or missing; frames with another kind of cell there are not modelled.
\<close>

fun is_number :: "cell \<Rightarrow> bool" where
  "is_number Null = True"
| "is_number (Num n) = True"
| "is_number c = False"








section \<open>The drill-down filter chain (lines 187-198)\<close>

text \<open>
  \<^verbatim>\<open>
  filtered_df = dash_df[(dash_df["YEAR"] == year) & (dash_df["MONTH"] == month)]
  if city != "ALL": filtered_df = filtered_df[filtered_df["LOCATION"] == city]
  if risk != "ALL": filtered_df = filtered_df[filtered_df["FRAUD_RISK_LEVEL"] == risk]
  \<close>
\<close>

definition drill_filter ::
  "cell \<Rightarrow> cell \<Rightarrow> string \<Rightarrow> string \<Rightarrow> dataframe \<Rightarrow> error + dataframe" where
  "drill_filter year month city risk df =
     (if ''YEAR'' \<notin> set (columns df) then Inl (KeyError ''YEAR'')
      else if ''MONTH'' \<notin> set (columns df) then Inl (KeyError ''MONTH'')
      else
        let f0 = select_rows
                   (\<lambda>r. cell_eq (cell_at ''YEAR'' r) year \<and> cell_eq (cell_at ''MONTH'' r) month) df
        in and_then (if city \<noteq> ''ALL'' then where_eq ''LOCATION'' (Str city) f0 else Inr f0)
             (\<lambda>f1. if risk \<noteq> ''ALL'' then where_eq ''FRAUD_RISK_LEVEL'' (Str risk) f1
                   else Inr f1))"

text \<open>
  The filter as the specification words it: a list of (column, expected value)
  constraints, the value \<^verbatim>\<open>"ALL"\<close> meaning no constraint; a row is kept when every
  other constraint matches.
\<close>

definition satisfies :: "(string \<times> cell) list \<Rightarrow> row \<Rightarrow> bool" where
  "satisfies spec r = list_all (\<lambda>(c, v). v = Str ''ALL'' \<or> cell_eq (cell_at c r) v) spec"

definition spec_filter :: "(string \<times> cell) list \<Rightarrow> dataframe \<Rightarrow> dataframe" where
  "spec_filter spec df = select_rows (satisfies spec) df"

section \<open>The cached query (lines 18-24)\<close>

text \<open>
  \<^verbatim>\<open>
  @st.cache_data(ttl=60)
  def run_query(query):
      try:
          return session.sql(query).to_pandas()
      except Exception as e:
          st.error(f"Query Failed: {e}")
          return pd.DataFrame()
  \<close>
  The warehouse session is a parameter: at a time it answers a query text with a frame
  or raises an exception, given by its message. Interrupts, which are not
  \<^verbatim>\<open>Exception\<close>s, are not modelled.

  The body returns a value or lets an exception escape (\<open>Inl\<close>), and lists the
  \<^verbatim>\<open>st.error\<close> messages it has shown.
\<close>

type_synonym session = "string \<Rightarrow> real \<Rightarrow> string + dataframe"

definition run_query_body :: "session \<Rightarrow> string \<Rightarrow> real \<Rightarrow> (error + dataframe) \<times> string list" where
  "run_query_body session query now =
     (case session query now of
        Inr df \<Rightarrow> (Inr df, [])
      | Inl e \<Rightarrow> (Inr empty_frame, [''Query Failed: '' @ e]))"

text \<open>
  \<^verbatim>\<open>st.cache_data(ttl=60)\<close> keeps, per argument value, the pickled return value, the
  messages the body showed and the time of the entry. An entry is used while less
  than \<open>ttl\<close> seconds old. Every call, hit or miss, hands the caller an object of its
  own: the store holds bytes, not the object. On a hit the recorded messages are
  shown again. An exception of the body would pass through and store nothing.

  Objects live in a heap, so that the script's in-place column assignments and the
  cache's copies can be told apart. \<open>adapter_calls\<close> records each \<^verbatim>\<open>session.sql\<close> call.
\<close>

type_synonym ref = nat

record cache_entry =
  cached_value :: dataframe
  cached_messages :: "string list"
  fetched_at :: real

record app_state =
  heap :: "ref \<Rightarrow> dataframe option"
  next_ref :: ref
  cache :: "string \<Rightarrow> cache_entry option"
  page_errors :: "string list"
  adapter_calls :: "(string \<times> real) list"

definition ttl :: real where
  "ttl = 60"

definition init_state :: app_state where
  "init_state = \<lparr>heap = (\<lambda>r. None), next_ref = 0, cache = (\<lambda>q. None),
                 page_errors = [], adapter_calls = []\<rparr>"

definition new_object :: "dataframe \<Rightarrow> app_state \<Rightarrow> ref \<times> app_state" where
  "new_object df st =
     (next_ref st, st\<lparr>heap := (heap st)(next_ref st \<mapsto> df), next_ref := Suc (next_ref st)\<rparr>)"

definition cache_hit :: "cache_entry \<Rightarrow> app_state \<Rightarrow> (error + ref) \<times> app_state" where
  "cache_hit e st =
     (let (r, st1) = new_object (cached_value e) st
      in (Inr r, st1\<lparr>page_errors := page_errors st1 @ cached_messages e\<rparr>))"

definition cache_miss :: "session \<Rightarrow> string \<Rightarrow> real \<Rightarrow> app_state \<Rightarrow> (error + ref) \<times> app_state" where
  "cache_miss session query now st =
     (let (res, msgs) = run_query_body session query now;
          st1 = st\<lparr>page_errors := page_errors st @ msgs,
                   adapter_calls := adapter_calls st @ [(query, now)]\<rparr>
      in case res of
           Inl e \<Rightarrow> (Inl e, st1)
         | Inr df \<Rightarrow>
             (let (r, st2) = new_object df st1
              in (Inr r, st2\<lparr>cache := (cache st2)(query \<mapsto>
                    \<lparr>cached_value = df, cached_messages = msgs, fetched_at = now\<rparr>)\<rparr>)))"

definition run_query :: "session \<Rightarrow> string \<Rightarrow> real \<Rightarrow> app_state \<Rightarrow> (error + ref) \<times> app_state" where
  "run_query session query now st =
     (case cache st query of
        None \<Rightarrow> cache_miss session query now st
      | Some e \<Rightarrow>
          (if now - fetched_at e < ttl then cache_hit e st
           else cache_miss session query now st))"

text \<open>Whether a call at time \<open>now\<close> finds an entry it can use.\<close>

definition has_live_entry :: "app_state \<Rightarrow> string \<Rightarrow> real \<Rightarrow> bool" where
  "has_live_entry st query now =
     (case cache st query of None \<Rightarrow> False | Some e \<Rightarrow> now - fetched_at e < ttl)"

text \<open>
  Lines 55-57 and 163-165 assign the new columns to the very object \<^verbatim>\<open>run_query\<close>
  returned. When an exception ends the run, the frame the script held is dropped.
\<close>

definition decompose_inplace ::
  "(cell \<Rightarrow> timestamp option) \<Rightarrow> string \<Rightarrow> ref \<Rightarrow> app_state \<Rightarrow> error + app_state" where
  "decompose_inplace parse col r st =
     (case heap st r of
        None \<Rightarrow> Inl (Unmodelled ''no such object'')
      | Some df \<Rightarrow>
          and_then (decompose parse col df) (\<lambda>d. Inr (st\<lparr>heap := (heap st)(r \<mapsto> d)\<rparr>)))"

text \<open>The drill-down query of lines 155-159, with its row limit in the text.\<close>

definition dashboard_query :: string where
  "dashboard_query =
     ''\<newline>SELECT *\<newline>FROM FIN_FRAUD_DB.GOLD.VW_FRAUD_DASHBOARD\<newline>LIMIT 2000\<newline>''"



section \<open>Sample data\<close>

text \<open>
  A parser for the examples: it reads the dates listed and rejects every other cell.
  The remainder of a timestamp is its day of the month here.
\<close>

definition sample_parse :: "cell \<Rightarrow> timestamp option" where
  "sample_parse c = map_of
     [(Str ''2024-01-05'', Timestamp 2024 1 5),
      (Str ''2024-01-20'', Timestamp 2024 1 20),
      (Str ''2024-02-01'', Timestamp 2024 2 1),
      (Str ''2023-01-15'', Timestamp 2023 1 15)] c"

text \<open>The trend rows of the specification's example.\<close>

definition sample_trend :: dataframe where
  "sample_trend = \<lparr>columns = [''TXN_DATE'', ''HIGH_RISK_TXNS''],
     rows = [[(''TXN_DATE'', Str ''2024-01-05''), (''HIGH_RISK_TXNS'', Num 10)],
             [(''TXN_DATE'', Str ''2024-01-20''), (''HIGH_RISK_TXNS'', Num 5)],
             [(''TXN_DATE'', Str ''2024-02-01''), (''HIGH_RISK_TXNS'', Num 7)]]\<rparr>"

definition sample_trend_decomposed :: dataframe where
  "sample_trend_decomposed =
     \<lparr>columns = [''TXN_DATE'', ''HIGH_RISK_TXNS'', ''YEAR'', ''MONTH''],
      rows = [[(''TXN_DATE'', Ts (Timestamp 2024 1 5)), (''HIGH_RISK_TXNS'', Num 10),
               (''YEAR'', Num 2024), (''MONTH'', Num 1)],
              [(''TXN_DATE'', Ts (Timestamp 2024 1 20)), (''HIGH_RISK_TXNS'', Num 5),
               (''YEAR'', Num 2024), (''MONTH'', Num 1)],
              [(''TXN_DATE'', Ts (Timestamp 2024 2 1)), (''HIGH_RISK_TXNS'', Num 7),
               (''YEAR'', Num 2024), (''MONTH'', Num 2)]]\<rparr>"


text \<open>A drill-down table with January 2023 and February 2024.\<close>

definition sample_dash :: dataframe where
  "sample_dash = \<lparr>columns = [''TXN_TIME'', ''LOCATION'', ''FRAUD_RISK_LEVEL''],
     rows = [[(''TXN_TIME'', Str ''2023-01-15''), (''LOCATION'', Str ''Pune''),
              (''FRAUD_RISK_LEVEL'', Str ''HIGH_RISK'')],
             [(''TXN_TIME'', Str ''2024-02-01''), (''LOCATION'', Str ''Delhi''),
              (''FRAUD_RISK_LEVEL'', Str ''LOW_RISK'')]]\<rparr>"

definition sample_dash_decomposed :: dataframe where
  "sample_dash_decomposed =
     \<lparr>columns = [''TXN_TIME'', ''LOCATION'', ''FRAUD_RISK_LEVEL'', ''YEAR'', ''MONTH''],
      rows = [[(''TXN_TIME'', Ts (Timestamp 2023 1 15)), (''LOCATION'', Str ''Pune''),
               (''FRAUD_RISK_LEVEL'', Str ''HIGH_RISK''), (''YEAR'', Num 2023), (''MONTH'', Num 1)],
              [(''TXN_TIME'', Ts (Timestamp 2024 2 1)), (''LOCATION'', Str ''Delhi''),
               (''FRAUD_RISK_LEVEL'', Str ''LOW_RISK''), (''YEAR'', Num 2024), (''MONTH'', Num 2)]]\<rparr>"

text \<open>A session that answers every query with the sample drill-down table, and one that fails.\<close>

definition sample_session :: session where
  "sample_session query now = Inr sample_dash"

definition failing_session :: session where
  "failing_session query now = Inl ''connection lost''"

text \<open>The states of the examples: after the first fetch, and after the script has
  added the columns to the frame it was handed.\<close>

definition sample_state1 :: app_state where
  "sample_state1 = snd (run_query sample_session dashboard_query 0 init_state)"

definition sample_state2 :: app_state where
  "sample_state2 = sample_state1\<lparr>heap := (heap sample_state1)(0 \<mapsto> sample_dash_decomposed)\<rparr>"

section \<open>The row cap as an invariant of the cache\<close>


section \<open>Basic facts\<close>

lemma set_unique: "set (unique xs) = set xs"
  by (induction xs) auto

lemma distinct_unique: "distinct (unique xs)"
  by (induction xs) (auto simp: set_unique)

lemma set_py_insert: "set (py_insert x xs) = insert x (set xs)"
  by (induction xs) auto

lemma set_foldl_py_insert:
  "set (foldl (\<lambda>acc x. py_insert x acc) acc xs) = set acc \<union> set xs"
  by (induction xs arbitrary: acc) (auto simp: set_py_insert)

lemma set_py_sorted: "set (py_sorted xs) = set xs"
  by (simp add: py_sorted_def set_foldl_py_insert)

lemma columns_select_rows [simp]: "columns (select_rows p df) = columns df"
  by (simp add: select_rows_def)

lemma rows_select_rows [simp]: "rows (select_rows p df) = filter p (rows df)"
  by (simp add: select_rows_def)

lemma select_rows_twice: "select_rows p (select_rows q df) = select_rows (\<lambda>r. q r \<and> p r) df"
  by (simp add: select_rows_def)

lemma select_rows_cong: "(\<And>r. r \<in> set (rows df) \<Longrightarrow> p r = q r) \<Longrightarrow> select_rows p df = select_rows q df"
  by (simp add: select_rows_def cong: filter_cong)

lemma select_rows_all: "(\<And>r. r \<in> set (rows df) \<Longrightarrow> p r) \<Longrightarrow> select_rows p df = df"
  by (simp add: select_rows_def)






subsection \<open>Parsing a column\<close>








lemma dt_cell_number: "is_number (dt_cell f c)"
  by (cases c) auto


subsection \<open>What decomposition returns\<close>






lemma decompose_sample_dash:
  "decompose sample_parse ''TXN_TIME'' sample_dash = Inr sample_dash_decomposed"
  by (simp add: decompose_def and_then_def get_column_def set_column_def dt_field_def
      cell_at_def sample_parse_def sample_dash_def sample_dash_decomposed_def)

lemma decompose_sample_trend:
  "decompose sample_parse ''TXN_DATE'' sample_trend = Inr sample_trend_decomposed"
  by (simp add: decompose_def and_then_def get_column_def set_column_def dt_field_def
      cell_at_def sample_parse_def sample_trend_def sample_trend_decomposed_def)


subsection \<open>Selectors, filters, group keys\<close>




lemma drill_filter_rows:
  assumes "''YEAR'' \<in> set (columns T)" "''MONTH'' \<in> set (columns T)"
    "''LOCATION'' \<in> set (columns T)" "''FRAUD_RISK_LEVEL'' \<in> set (columns T)"
  shows "drill_filter year month city risk T =
     Inr (select_rows (\<lambda>r. cell_eq (cell_at ''YEAR'' r) year \<and> cell_eq (cell_at ''MONTH'' r) month \<and>
            (city \<noteq> ''ALL'' \<longrightarrow> cell_eq (cell_at ''LOCATION'' r) (Str city)) \<and>
            (risk \<noteq> ''ALL'' \<longrightarrow> cell_eq (cell_at ''FRAUD_RISK_LEVEL'' r) (Str risk))) T)"
  using assms
  by (auto simp: drill_filter_def and_then_def where_eq_def Let_def select_rows_twice
      intro!: select_rows_cong)

lemma drill_filter_all_all:
  assumes "''YEAR'' \<in> set (columns T)" "''MONTH'' \<in> set (columns T)"
  shows "drill_filter year month ''ALL'' ''ALL'' T =
     Inr (select_rows (\<lambda>r. cell_eq (cell_at ''YEAR'' r) year \<and> cell_eq (cell_at ''MONTH'' r) month) T)"
  using assms by (simp add: drill_filter_def and_then_def)



lemma satisfies_set: "satisfies spec r = (\<forall>(c, v) \<in> set spec. v = Str ''ALL'' \<or> cell_eq (cell_at c r) v)"
  by (simp add: satisfies_def list_all_iff)




subsection \<open>The cache\<close>

lemma run_query_body_returns: "\<exists>df msgs. run_query_body session q now = (Inr df, msgs)"
  by (simp add: run_query_body_def split: sum.splits)

lemma cache_miss_eq:
  assumes "run_query_body session q now = (Inr df, msgs)"
  shows "cache_miss session q now st =
     (Inr (next_ref st),
      st\<lparr>heap := (heap st)(next_ref st \<mapsto> df), next_ref := Suc (next_ref st),
         cache := (cache st)(q \<mapsto> \<lparr>cached_value = df, cached_messages = msgs, fetched_at = now\<rparr>),
         page_errors := page_errors st @ msgs,
         adapter_calls := adapter_calls st @ [(q, now)]\<rparr>)"
  using assms by (simp add: cache_miss_def new_object_def Let_def)

lemma cache_hit_eq:
  "cache_hit e st =
     (Inr (next_ref st),
      st\<lparr>heap := (heap st)(next_ref st \<mapsto> cached_value e), next_ref := Suc (next_ref st),
         page_errors := page_errors st @ cached_messages e\<rparr>)"
  by (simp add: cache_hit_def new_object_def Let_def)

lemma run_query_live:
  assumes "cache st q = Some e" and "now - fetched_at e < ttl"
  shows "run_query session q now st = cache_hit e st"
  using assms by (simp add: run_query_def)

lemma run_query_stale:
  assumes "\<not> has_live_entry st q now"
  shows "run_query session q now st = cache_miss session q now st"
  using assms by (auto simp: run_query_def has_live_entry_def split: option.splits)

lemma run_query_returns_entry:
  assumes "run_query session q now st = (res, st1)"
  shows "\<exists>e. res = Inr (next_ref st) \<and> cache st1 q = Some e \<and>
           heap st1 (next_ref st) = Some (cached_value e) \<and>
           next_ref st1 = Suc (next_ref st) \<and>
           (\<forall>r. r \<noteq> next_ref st \<longrightarrow> heap st1 r = heap st r)"
proof (cases "has_live_entry st q now")
  case True
  then obtain e where e: "cache st q = Some e" "now - fetched_at e < ttl"
    by (auto simp: has_live_entry_def split: option.splits)
  then have "run_query session q now st = cache_hit e st"
    by (rule run_query_live)
  with assms e show ?thesis
    by (auto simp: cache_hit_eq)
next
  case False
  obtain df msgs where b: "run_query_body session q now = (Inr df, msgs)"
    using run_query_body_returns by blast
  from False have "run_query session q now st = cache_miss session q now st"
    by (rule run_query_stale)
  with assms show ?thesis
    by (auto simp: cache_miss_eq [OF b])
qed

lemma decompose_inplace_Inr:
  assumes "decompose_inplace parse col r st = Inr st'"
  shows "\<exists>df d. heap st r = Some df \<and> decompose parse col df = Inr d \<and>
           st' = st\<lparr>heap := (heap st)(r \<mapsto> d)\<rparr>"
  using assms
  by (auto simp: decompose_inplace_def and_then_def split: option.splits sum.splits)




lemma init_not_live: "\<not> has_live_entry init_state q now"
  by (simp add: has_live_entry_def init_state_def)

lemma sample_state1_eq:
  "sample_state1 = \<lparr>heap = (\<lambda>r. None)(0 \<mapsto> sample_dash), next_ref = Suc 0,
      cache = (\<lambda>q. None)(dashboard_query \<mapsto>
         \<lparr>cached_value = sample_dash, cached_messages = [], fetched_at = 0\<rparr>),
      page_errors = [], adapter_calls = [(dashboard_query, 0)]\<rparr>"
proof -
  have b: "run_query_body sample_session dashboard_query 0 = (Inr sample_dash, [])"
    by (simp add: run_query_body_def sample_session_def)
  show ?thesis
    unfolding sample_state1_def run_query_stale [OF init_not_live] cache_miss_eq [OF b]
    by (simp add: init_state_def)
qed

lemma run_sample_first:
  "run_query sample_session dashboard_query 0 init_state = (Inr 0, sample_state1)"
proof -
  have "fst (run_query sample_session dashboard_query 0 init_state) = Inr 0"
    using run_query_returns_entry [of sample_session dashboard_query 0 init_state]
    by (metis fst_conv surj_pair init_state_def app_state.select_convs(2))
  then show ?thesis
    by (metis sample_state1_def prod.collapse)
qed

lemma sample_state1_heap: "heap sample_state1 0 = Some sample_dash"
  by (simp add: sample_state1_eq)

lemma sample_state1_live: "has_live_entry sample_state1 dashboard_query 30"
  by (simp add: sample_state1_eq has_live_entry_def ttl_def)

lemma sample_decompose_inplace:
  "decompose_inplace sample_parse ''TXN_TIME'' 0 sample_state1 = Inr sample_state2"
  by (simp add: decompose_inplace_def sample_state1_heap decompose_sample_dash and_then_def
      sample_state2_def)


section \<open>Dependent month selectors\<close>

text \<open>
  The month box of the daily trend offers exactly the months of the rows of the chosen
  year.
\<close>

lemma daily_month_options_exact:
  assumes "''YEAR'' \<in> set (columns df)" and "''MONTH'' \<in> set (columns df)"
  shows "\<exists>ms. daily_month_options y df = Inr ms \<and>
           set ms = cell_at ''MONTH'' ` {r \<in> set (rows df). cell_eq (cell_at ''YEAR'' r) y}"
  using assms
  by (simp add: daily_month_options_def where_eq_def select_rows_def and_then_def
      get_column_def set_py_sorted set_unique)

text \<open>
  Claim C1. The months a month selector offers for the chosen year are the months of
  the rows of that year. The drill-down selector (line 173) does not do this: on a
  table holding January 2023 and February 2024 it offers months 1 and 2 whatever the
  year, while the rows of 2023 have month 1 only, which is what the daily selector
  (line 111) offers for 2023 on the same table.
\<close>

theorem drill_month_options_ignore_year:
  "decompose sample_parse ''TXN_TIME'' sample_dash = Inr sample_dash_decomposed \<and>
   drill_month_options sample_dash_decomposed = Inr [Num 1, Num 2] \<and>
   map (cell_at ''MONTH'')
     (filter (\<lambda>r. cell_eq (cell_at ''YEAR'' r) (Num 2023)) (rows sample_dash_decomposed))
     = [Num 1] \<and>
   daily_month_options (Num 2023) sample_dash_decomposed = Inr [Num 1]"
proof -
  have "drill_month_options sample_dash_decomposed = Inr [Num 1, Num 2]"
    by (simp add: drill_month_options_def and_then_def get_column_def cell_at_def
        py_sorted_def sample_dash_decomposed_def)
  moreover have "map (cell_at ''MONTH'')
     (filter (\<lambda>r. cell_eq (cell_at ''YEAR'' r) (Num 2023)) (rows sample_dash_decomposed))
     = [Num 1]"
    by (simp add: cell_at_def sample_dash_decomposed_def)
  moreover have "daily_month_options (Num 2023) sample_dash_decomposed = Inr [Num 1]"
    by (simp add: daily_month_options_def where_eq_def select_rows_def and_then_def
        get_column_def cell_at_def py_sorted_def sample_dash_decomposed_def)
  ultimately show ?thesis
    using decompose_sample_dash by simp
qed

section \<open>Malformed timestamps\<close>




section \<open>The query cache\<close>



text \<open>
  Claim C4. Neither the body of \<^verbatim>\<open>run_query\<close> nor the cached function lets an
  exception out: both always return a value. When the session raises and no usable
  entry exists, the caller gets the empty frame, the message
  \<^verbatim>\<open>Query Failed: ...\<close> is shown, and the empty frame is stored as the entry of the
  query like any other result.
\<close>

theorem run_query_never_raises:
  "(\<exists>df. fst (run_query_body session q now) = Inr df) \<and>
   (\<exists>r. fst (run_query session q now st) = Inr r) \<and>
   (session q now = Inl m \<and> \<not> has_live_entry st q now \<and>
    run_query session q now st = (res, st') \<longrightarrow>
      (\<exists>r. res = Inr r \<and> heap st' r = Some empty_frame) \<and>
      page_errors st' = page_errors st @ [''Query Failed: '' @ m] \<and>
      cache st' q = Some \<lparr>cached_value = empty_frame,
                           cached_messages = [''Query Failed: '' @ m], fetched_at = now\<rparr>)"
proof (intro conjI)
  show "\<exists>df. fst (run_query_body session q now) = Inr df"
    using run_query_body_returns [of session q now] by auto
  show "\<exists>r. fst (run_query session q now st) = Inr r"
    using run_query_returns_entry [of session q now st] by (metis fst_conv surj_pair)
next
  show "session q now = Inl m \<and> \<not> has_live_entry st q now \<and>
    run_query session q now st = (res, st') \<longrightarrow>
      (\<exists>r. res = Inr r \<and> heap st' r = Some empty_frame) \<and>
      page_errors st' = page_errors st @ [''Query Failed: '' @ m] \<and>
      cache st' q = Some \<lparr>cached_value = empty_frame,
                           cached_messages = [''Query Failed: '' @ m], fetched_at = now\<rparr>"
  proof (rule impI)
  assume a: "session q now = Inl m \<and> \<not> has_live_entry st q now \<and>
    run_query session q now st = (res, st')"
  then have b: "run_query_body session q now = (Inr empty_frame, [''Query Failed: '' @ m])"
    by (simp add: run_query_body_def)
  have "(res, st') = cache_miss session q now st"
    using a run_query_stale by metis
  then show "(\<exists>r. res = Inr r \<and> heap st' r = Some empty_frame) \<and>
      page_errors st' = page_errors st @ [''Query Failed: '' @ m] \<and>
      cache st' q = Some \<lparr>cached_value = empty_frame,
                           cached_messages = [''Query Failed: '' @ m], fetched_at = now\<rparr>"
    by (simp add: cache_miss_eq [OF b])
  qed
qed

text \<open>With a session that always fails, from the initial state.\<close>

theorem run_query_never_raises_witness:
  "failing_session dashboard_query 0 = Inl ''connection lost'' \<and>
   \<not> has_live_entry init_state dashboard_query 0 \<and>
   (\<exists>r. fst (run_query failing_session dashboard_query 0 init_state) = Inr r \<and>
      heap (snd (run_query failing_session dashboard_query 0 init_state)) r = Some empty_frame) \<and>
   page_errors (snd (run_query failing_session dashboard_query 0 init_state)) =
     [''Query Failed: connection lost''] \<and>
   cache (snd (run_query failing_session dashboard_query 0 init_state)) dashboard_query =
     Some \<lparr>cached_value = empty_frame,
           cached_messages = [''Query Failed: connection lost''], fetched_at = 0\<rparr>"
proof -
  have f: "failing_session dashboard_query 0 = Inl ''connection lost''"
    by (simp add: failing_session_def)
  have p: "page_errors init_state = []"
    by (simp add: init_state_def)
  note inst = run_query_never_raises [where session = failing_session and q = dashboard_query
      and now = 0 and st = init_state and m = "''connection lost''"
      and res = "fst (run_query failing_session dashboard_query 0 init_state)"
      and st' = "snd (run_query failing_session dashboard_query 0 init_state)"]
  show ?thesis
    using inst f init_not_live [of dashboard_query 0] p by simp
qed

section \<open>Aggregation and filtering\<close>



text \<open>
  Claim C6. The filter chain of the drill-down returns the rows of the table, in
  order, that satisfy every constraint other than \<^verbatim>\<open>"ALL"\<close>: it is the filter of the
  specification for the constraints on year, month, city and risk, every returned row
  satisfies them, no row satisfying them is left out, and listing the constraints in
  another order gives the same result. The values of the year and month boxes are
  never the string \<^verbatim>\<open>"ALL"\<close>.
\<close>

theorem drill_filter_is_conjunction:
  assumes "''YEAR'' \<in> set (columns T)" "''MONTH'' \<in> set (columns T)"
    "''LOCATION'' \<in> set (columns T)" "''FRAUD_RISK_LEVEL'' \<in> set (columns T)"
    and "year \<noteq> Str ''ALL''" "month \<noteq> Str ''ALL''"
    and "spec = [(''YEAR'', year), (''MONTH'', month), (''LOCATION'', Str city),
                 (''FRAUD_RISK_LEVEL'', Str risk)]"
  shows "\<exists>out. drill_filter year month city risk T = Inr out \<and>
           columns out = columns T \<and>
           rows out = filter (satisfies spec) (rows T) \<and>
           out = spec_filter spec T \<and>
           (\<forall>r \<in> set (rows out). satisfies spec r) \<and>
           (\<forall>r \<in> set (rows T). satisfies spec r \<longrightarrow> r \<in> set (rows out)) \<and>
           (\<forall>spec'. set spec' = set spec \<longrightarrow> spec_filter spec' T = out)"
proof -
  let ?p = "\<lambda>r. cell_eq (cell_at ''YEAR'' r) year \<and> cell_eq (cell_at ''MONTH'' r) month \<and>
            (city \<noteq> ''ALL'' \<longrightarrow> cell_eq (cell_at ''LOCATION'' r) (Str city)) \<and>
            (risk \<noteq> ''ALL'' \<longrightarrow> cell_eq (cell_at ''FRAUD_RISK_LEVEL'' r) (Str risk))"
  have p: "satisfies spec r = ?p r" for r
    using assms(5,6) by (auto simp: satisfies_def assms(7))
  have run: "drill_filter year month city risk T = Inr (select_rows ?p T)"
    using assms(1-4) by (rule drill_filter_rows)
  have eq: "select_rows ?p T = spec_filter spec T"
    unfolding spec_filter_def by (rule select_rows_cong) (simp add: p)
  have perm: "spec_filter spec' T = spec_filter spec T" if "set spec' = set spec" for spec'
    unfolding spec_filter_def by (rule select_rows_cong) (simp add: satisfies_set that)
  have rws: "rows (spec_filter spec T) = filter (satisfies spec) (rows T)"
    and cls: "columns (spec_filter spec T) = columns T"
    by (simp_all add: spec_filter_def)
  show ?thesis
  proof (intro exI conjI)
    show "drill_filter year month city risk T = Inr (spec_filter spec T)"
      using run eq by simp
    show "columns (spec_filter spec T) = columns T" by (rule cls)
    show "rows (spec_filter spec T) = filter (satisfies spec) (rows T)" by (rule rws)
    show "spec_filter spec T = spec_filter spec T" by (rule refl)
    show "\<forall>r \<in> set (rows (spec_filter spec T)). satisfies spec r"
      by (simp add: rws)
    show "\<forall>r \<in> set (rows T). satisfies spec r \<longrightarrow> r \<in> set (rows (spec_filter spec T))"
      by (simp add: rws)
    show "\<forall>spec'. set spec' = set spec \<longrightarrow> spec_filter spec' T = spec_filter spec T"
      using perm by blast
  qed
qed

text \<open>On the sample drill-down table, for January 2023 in Pune with any risk level.\<close>

theorem drill_filter_is_conjunction_witness:
  "''YEAR'' \<in> set (columns sample_dash_decomposed) \<and>
   ''MONTH'' \<in> set (columns sample_dash_decomposed) \<and>
   ''LOCATION'' \<in> set (columns sample_dash_decomposed) \<and>
   ''FRAUD_RISK_LEVEL'' \<in> set (columns sample_dash_decomposed) \<and>
   Num 2023 \<noteq> Str ''ALL'' \<and> Num 1 \<noteq> Str ''ALL'' \<and>
   (\<exists>out. drill_filter (Num 2023) (Num 1) ''Pune'' ''ALL'' sample_dash_decomposed = Inr out \<and>
      out = spec_filter [(''YEAR'', Num 2023), (''MONTH'', Num 1), (''LOCATION'', Str ''Pune''),
                         (''FRAUD_RISK_LEVEL'', Str ''ALL'')] sample_dash_decomposed \<and>
      length (rows out) = 1)"
proof -
  have h: "''YEAR'' \<in> set (columns sample_dash_decomposed)"
    "''MONTH'' \<in> set (columns sample_dash_decomposed)"
    "''LOCATION'' \<in> set (columns sample_dash_decomposed)"
    "''FRAUD_RISK_LEVEL'' \<in> set (columns sample_dash_decomposed)"
    by (simp_all add: sample_dash_decomposed_def)
  have n: "Num 2023 \<noteq> Str ''ALL''" "Num 1 \<noteq> Str ''ALL''" by simp_all
  let ?spec = "[(''YEAR'', Num 2023), (''MONTH'', Num 1), (''LOCATION'', Str ''Pune''),
                (''FRAUD_RISK_LEVEL'', Str ''ALL'')]"
  from drill_filter_is_conjunction [OF h n refl, of "''Pune''" "''ALL''"]
  obtain out where out:
    "drill_filter (Num 2023) (Num 1) ''Pune'' ''ALL'' sample_dash_decomposed = Inr out"
    "out = spec_filter ?spec sample_dash_decomposed"
    by (elim exE conjE)
  have len: "length (rows (spec_filter ?spec sample_dash_decomposed)) = 1"
    by (simp add: spec_filter_def select_rows_def satisfies_def cell_at_def
        sample_dash_decomposed_def)
  have r: "\<exists>out. drill_filter (Num 2023) (Num 1) ''Pune'' ''ALL'' sample_dash_decomposed = Inr out \<and>
      out = spec_filter ?spec sample_dash_decomposed \<and> length (rows out) = 1"
    using out len by (intro exI [of _ out]) simp
  show ?thesis
    by (intro conjI; fact)
qed

text \<open>
  Claim C7, as amended. With the city and the risk constraint both \<^verbatim>\<open>"ALL"\<close>, the
  filter chain returns exactly the rows of the table whose year and month equal the
  chosen ones, in order and with the same columns; it returns the table itself when
  every row has the chosen year and month. Year and month have no \<^verbatim>\<open>"ALL"\<close> value.
\<close>

theorem drill_filter_city_risk_all:
  assumes "''YEAR'' \<in> set (columns T)" "''MONTH'' \<in> set (columns T)"
  shows "\<exists>out. drill_filter year month ''ALL'' ''ALL'' T = Inr out \<and>
           columns out = columns T \<and>
           rows out = filter (\<lambda>r. cell_eq (cell_at ''YEAR'' r) year \<and>
                                 cell_eq (cell_at ''MONTH'' r) month) (rows T) \<and>
           ((\<forall>r \<in> set (rows T). cell_eq (cell_at ''YEAR'' r) year \<and>
                                 cell_eq (cell_at ''MONTH'' r) month) \<longrightarrow> out = T)"
proof -
  let ?p = "\<lambda>r. cell_eq (cell_at ''YEAR'' r) year \<and> cell_eq (cell_at ''MONTH'' r) month"
  have run: "drill_filter year month ''ALL'' ''ALL'' T = Inr (select_rows ?p T)"
    using assms by (rule drill_filter_all_all)
  have "select_rows ?p T = T" if "\<forall>r \<in> set (rows T). ?p r"
    using that by (intro select_rows_all) blast
  then show ?thesis
    using run by simp
qed

text \<open>
  The claim as written, that the filter is the identity when every constraint is
  \<^verbatim>\<open>"ALL"\<close>, fails on the sample drill-down table: with \<^verbatim>\<open>"ALL"\<close> in all four
  places no row is returned, and with a year and month of the table and \<^verbatim>\<open>"ALL"\<close> for
  city and risk only the rows of that month are.
\<close>

theorem drill_filter_all_sentinels_counterexample:
  "drill_filter (Str ''ALL'') (Str ''ALL'') ''ALL'' ''ALL'' sample_dash_decomposed
     \<noteq> Inr sample_dash_decomposed \<and>
   drill_filter (Num 2023) (Num 1) ''ALL'' ''ALL'' sample_dash_decomposed
     \<noteq> Inr sample_dash_decomposed"
  by (simp add: drill_filter_def and_then_def select_rows_def cell_at_def
      sample_dash_decomposed_def)

text \<open>On the sample drill-down table, for February 2024.\<close>

theorem drill_filter_city_risk_all_witness:
  "''YEAR'' \<in> set (columns sample_dash_decomposed) \<and>
   ''MONTH'' \<in> set (columns sample_dash_decomposed) \<and>
   (\<exists>out. drill_filter (Num 2024) (Num 2) ''ALL'' ''ALL'' sample_dash_decomposed = Inr out \<and>
      columns out = columns sample_dash_decomposed \<and>
      rows out = filter (\<lambda>r. cell_eq (cell_at ''YEAR'' r) (Num 2024) \<and>
                            cell_eq (cell_at ''MONTH'' r) (Num 2)) (rows sample_dash_decomposed))"
proof -
  have h: "''YEAR'' \<in> set (columns sample_dash_decomposed)"
    "''MONTH'' \<in> set (columns sample_dash_decomposed)"
    by (simp_all add: sample_dash_decomposed_def)
  from drill_filter_city_risk_all [OF h, of "Num 2024" "Num 2"]
  obtain out where out:
    "drill_filter (Num 2024) (Num 2) ''ALL'' ''ALL'' sample_dash_decomposed = Inr out"
    "columns out = columns sample_dash_decomposed"
    "rows out = filter (\<lambda>r. cell_eq (cell_at ''YEAR'' r) (Num 2024) \<and>
                            cell_eq (cell_at ''MONTH'' r) (Num 2)) (rows sample_dash_decomposed)"
    by (elim exE conjE)
  then have r: "\<exists>out. drill_filter (Num 2024) (Num 2) ''ALL'' ''ALL'' sample_dash_decomposed = Inr out \<and>
      columns out = columns sample_dash_decomposed \<and>
      rows out = filter (\<lambda>r. cell_eq (cell_at ''YEAR'' r) (Num 2024) \<and>
                            cell_eq (cell_at ''MONTH'' r) (Num 2)) (rows sample_dash_decomposed)"
    by (intro exI [of _ out] conjI)
  show ?thesis
    by (intro conjI; fact)
qed

section \<open>Row cap and cache frame\<close>



text \<open>
  Claim C9. Adding the columns to the frame that \<^verbatim>\<open>run_query\<close> returned changes that
  object only: the cache is as before and its entry still holds the frame as fetched.
  A later call for the same query, while the entry is less than 60 seconds old,
  returns a new object holding the frame as fetched, without the added columns, and
  invokes the adapter no further.
\<close>

theorem decompose_leaves_cache_entry:
  assumes c1: "run_query session q t0 st = (Inr r0, st1)"
    and h0: "heap st1 r0 = Some df0"
    and dec: "decompose_inplace parse col r0 st1 = Inr st2"
    and live: "has_live_entry st1 q t1"
    and c2: "run_query session q t1 st2 = (res, st3)"
  shows "cache st2 = cache st1 \<and>
     (\<exists>e. cache st2 q = Some e \<and> cached_value e = df0) \<and>
     (\<exists>d. decompose parse col df0 = Inr d \<and> heap st2 r0 = Some d) \<and>
     (\<exists>r1. res = Inr r1 \<and> r1 \<noteq> r0 \<and> heap st3 r1 = Some df0 \<and> heap st3 r0 = heap st2 r0) \<and>
     adapter_calls st3 = adapter_calls st1 \<and> cache st3 = cache st1"
proof -
  obtain e where e: "r0 = next_ref st" "cache st1 q = Some e"
    "heap st1 r0 = Some (cached_value e)" "next_ref st1 = Suc r0"
    using run_query_returns_entry [OF c1] by auto
  from e(3) h0 have v: "cached_value e = df0" by simp
  obtain d where d: "decompose parse col df0 = Inr d"
    and st2: "st2 = st1\<lparr>heap := (heap st1)(r0 \<mapsto> d)\<rparr>"
    using decompose_inplace_Inr [OF dec] h0 by auto
  have cache2: "cache st2 = cache st1" and next2: "next_ref st2 = Suc r0"
    and heap2: "heap st2 r0 = Some d" and calls2: "adapter_calls st2 = adapter_calls st1"
    using e(4) by (simp_all add: st2)
  from live e(2) have "t1 - fetched_at e < ttl"
    by (simp add: has_live_entry_def)
  then have "run_query session q t1 st2 = cache_hit e st2"
    using e(2) cache2 by (intro run_query_live) simp_all
  with c2 have hit: "(res, st3) = cache_hit e st2" by simp
  then have r1: "res = Inr (Suc r0)" and h3: "heap st3 (Suc r0) = Some df0"
    and h3': "heap st3 r0 = heap st2 r0" and calls3: "adapter_calls st3 = adapter_calls st2"
    and cache3: "cache st3 = cache st2"
    using next2 v by (simp_all add: cache_hit_eq)
  show ?thesis
    using cache2 e(2) v d heap2 r1 h3 h3' calls2 calls3 cache3 by simp
qed

text \<open>From the initial state: fetch at time 0, add the columns, call again at time 30.\<close>

theorem decompose_leaves_cache_entry_witness:
  "run_query sample_session dashboard_query 0 init_state = (Inr 0, sample_state1) \<and>
   heap sample_state1 0 = Some sample_dash \<and>
   decompose_inplace sample_parse ''TXN_TIME'' 0 sample_state1 = Inr sample_state2 \<and>
   has_live_entry sample_state1 dashboard_query 30 \<and>
   cache sample_state2 = cache sample_state1 \<and>
   heap sample_state2 0 = Some sample_dash_decomposed \<and>
   (\<exists>r1. fst (run_query sample_session dashboard_query 30 sample_state2) = Inr r1 \<and> r1 \<noteq> 0 \<and>
      heap (snd (run_query sample_session dashboard_query 30 sample_state2)) r1 =
        Some sample_dash)"
proof -
  have a: "run_query sample_session dashboard_query 30 sample_state2 =
      (fst (run_query sample_session dashboard_query 30 sample_state2),
       snd (run_query sample_session dashboard_query 30 sample_state2))"
    by simp
  have h2: "heap sample_state2 0 = Some sample_dash_decomposed"
    by (simp add: sample_state2_def)
  note main = decompose_leaves_cache_entry [OF run_sample_first sample_state1_heap
      sample_decompose_inplace sample_state1_live a]
  have c: "cache sample_state2 = cache sample_state1"
    using main by (elim conjE)
  from main obtain r1 where o:
    "fst (run_query sample_session dashboard_query 30 sample_state2) = Inr r1" "r1 \<noteq> 0"
    "heap (snd (run_query sample_session dashboard_query 30 sample_state2)) r1 = Some sample_dash"
    by (elim exE conjE)
  then have r: "\<exists>r1. fst (run_query sample_session dashboard_query 30 sample_state2) = Inr r1 \<and>
      r1 \<noteq> 0 \<and>
      heap (snd (run_query sample_session dashboard_query 30 sample_state2)) r1 =
        Some sample_dash"
    by (intro exI [of _ r1] conjI)
  note f = run_sample_first sample_state1_heap sample_decompose_inplace sample_state1_live
  show ?thesis
    by (intro conjI; fact)
qed

section \<open>Year and month in the drill-down\<close>



end
